theory Spec2Isabelle
  imports Main
begin

section \<open>Python values and builtins used by main.py\<close>

text \<open>
  Values that travel through the bridge as payloads, event data and format arguments are
  Python integers or strings. A string is a list of characters; a character stands for
  one code point in the range U+0000 .. U+00FF.
\<close>

datatype pyval = PInt int | PStr string

text \<open>\<^verbatim>\<open>str(n)\<close> and \<^verbatim>\<open>'{0}'.format(n)\<close> for an integer: decimal digits, a minus sign
  for negative numbers.\<close>

fun show_nat :: "nat \<Rightarrow> string" where
  "show_nat n =
     (if n < 10 then [char_of (48 + n)]
      else show_nat (n div 10) @ [char_of (48 + n mod 10)])"

declare show_nat.simps [simp del]

definition show_int :: "int \<Rightarrow> string" where
  "show_int i = (if i < 0 then CHR ''-'' # show_nat (nat (- i)) else show_nat (nat i))"

fun py_str :: "pyval \<Rightarrow> string" where
  "py_str (PInt i) = show_int i"
| "py_str (PStr s) = s"

text \<open>\<^verbatim>\<open>s.split(sep)\<close> with an explicit one-character separator: every occurrence of the
  separator cuts, empty pieces are kept, and the empty string gives one empty piece.\<close>

fun str_split :: "char \<Rightarrow> string \<Rightarrow> string list" where
  "str_split sep [] = [[]]"
| "str_split sep (ch # cs) =
     (if ch = sep then [] # str_split sep cs
      else (case str_split sep cs of
              [] \<Rightarrow> [[ch]]
            | piece # pieces \<Rightarrow> (ch # piece) # pieces))"

text \<open>\<^verbatim>\<open>xs[i]\<close> for a non-negative literal index: IndexError beyond the end.\<close>

datatype exn = IndexError | ValueError | UnicodeDecodeError | UnboundLocalError

definition index :: "'a list \<Rightarrow> nat \<Rightarrow> exn + 'a" where
  "index xs i = (if i < length xs then Inr (xs ! i) else Inl IndexError)"

text \<open>
  \<^verbatim>\<open>int(text)\<close> for a string, base ten: white space is stripped on both sides, one sign
  may lead, then come decimal digits, where single underscores may stand between two
  digits. Anything else is a ValueError, and so is a literal of more than 4300 digits
  (the interpreter's default limit on integer string conversion).
\<close>

definition py_isspace :: "char \<Rightarrow> bool" where
  "py_isspace ch =
     ((of_char ch :: nat) \<in> {9, 10, 11, 12, 13, 28, 29, 30, 31, 32, 133, 160})"

definition is_digit :: "char \<Rightarrow> bool" where
  "is_digit ch = (48 \<le> (of_char ch :: nat) \<and> (of_char ch :: nat) \<le> 57)"

definition digit_val :: "char \<Rightarrow> nat" where
  "digit_val ch = of_char ch - 48"

definition int_max_str_digits :: nat where
  "int_max_str_digits = 4300"

fun scan_digits :: "char \<Rightarrow> nat \<Rightarrow> string \<Rightarrow> nat option" where
  "scan_digits prev acc [] = (if prev = CHR ''_'' then None else Some acc)"
| "scan_digits prev acc (ch # cs) =
     (if ch = CHR ''_'' then (if prev = CHR ''_'' then None else scan_digits ch acc cs)
      else if is_digit ch then scan_digits ch (10 * acc + digit_val ch) cs
      else None)"

definition py_int :: "string \<Rightarrow> int option" where
  "py_int text =
     (let s = dropWhile py_isspace text;
          s = rev (dropWhile py_isspace (rev s));
          neg = (s \<noteq> [] \<and> hd s = CHR ''-'');
          body = (if s \<noteq> [] \<and> (hd s = CHR ''+'' \<or> hd s = CHR ''-'') then tl s else s)
      in if body = [] \<or> hd body = CHR ''_'' then None
         else if length (filter is_digit body) > int_max_str_digits then None
         else (case scan_digits (CHR ''0'') 0 body of
                 None \<Rightarrow> None
               | Some n \<Rightarrow> Some (if neg then - int n else int n)))"

text \<open>A dict literal read with \<^verbatim>\<open>.get(key, default)\<close>: of two entries with the same key
  the later one stays.\<close>

definition dict_get :: "('k \<times> 'v) list \<Rightarrow> 'k \<Rightarrow> 'v \<Rightarrow> 'v" where
  "dict_get entries k dflt = (case map_of (rev entries) k of None \<Rightarrow> dflt | Some v \<Rightarrow> v)"

text \<open>\<^verbatim>\<open>needle in text\<close> for two strings.\<close>

fun str_contains :: "string \<Rightarrow> string \<Rightarrow> bool" where
  "str_contains needle [] = (needle = [])"
| "str_contains needle (ch # cs) =
     (take (length needle) (ch # cs) = needle \<or> str_contains needle cs)"


section \<open>The controller's constants and objects\<close>

text \<open>
  The numeric codes come from the controller library (\<^verbatim>\<open>src.telldus.const\<close>); main.py
  only names them, so they are a parameter of everything below. \<open>tellcore_const\<close> holds
  the values of the controller's C header, used for the concrete evaluations.
\<close>

record tellstick_const =
  TELLSTICK_TURNON :: int
  TELLSTICK_TURNOFF :: int
  TELLSTICK_BELL :: int
  TELLSTICK_TOGGLE :: int
  TELLSTICK_DIM :: int
  TELLSTICK_LEARN :: int
  TELLSTICK_EXECUTE :: int
  TELLSTICK_UP :: int
  TELLSTICK_DOWN :: int
  TELLSTICK_STOP :: int
  TELLSTICK_TEMPERATURE :: int
  TELLSTICK_HUMIDITY :: int
  TELLSTICK_RAINRATE :: int
  TELLSTICK_RAINTOTAL :: int
  TELLSTICK_WINDDIRECTION :: int
  TELLSTICK_WINDAVERAGE :: int
  TELLSTICK_WINDGUST :: int

definition tellcore_const :: tellstick_const where
  "tellcore_const =
     \<lparr>TELLSTICK_TURNON = 1, TELLSTICK_TURNOFF = 2, TELLSTICK_BELL = 4,
      TELLSTICK_TOGGLE = 8, TELLSTICK_DIM = 16, TELLSTICK_LEARN = 32,
      TELLSTICK_EXECUTE = 64, TELLSTICK_UP = 128, TELLSTICK_DOWN = 256,
      TELLSTICK_STOP = 512,
      TELLSTICK_TEMPERATURE = 1, TELLSTICK_HUMIDITY = 2, TELLSTICK_RAINRATE = 4,
      TELLSTICK_RAINTOTAL = 8, TELLSTICK_WINDDIRECTION = 16, TELLSTICK_WINDAVERAGE = 32,
      TELLSTICK_WINDGUST = 64\<rparr>"

definition TYPES :: "tellstick_const \<Rightarrow> (int \<times> string) list" where
  "TYPES c =
     [(TELLSTICK_TEMPERATURE c, ''temperature''),
      (TELLSTICK_HUMIDITY c, ''humidity''),
      (TELLSTICK_RAINRATE c, ''rainrate''),
      (TELLSTICK_RAINTOTAL c, ''raintotal''),
      (TELLSTICK_WINDDIRECTION c, ''winddirection''),
      (TELLSTICK_WINDAVERAGE c, ''windaverage''),
      (TELLSTICK_WINDGUST c, ''windgust'')]"

definition METHODS :: "tellstick_const \<Rightarrow> (int \<times> string) list" where
  "METHODS c =
     [(TELLSTICK_TURNON c, ''turn on''),
      (TELLSTICK_TURNOFF c, ''turn off''),
      (TELLSTICK_BELL c, ''bell''),
      (TELLSTICK_TOGGLE c, ''toggle''),
      (TELLSTICK_DIM c, ''dim''),
      (TELLSTICK_LEARN c, ''learn''),
      (TELLSTICK_EXECUTE c, ''execute''),
      (TELLSTICK_UP c, ''up''),
      (TELLSTICK_DOWN c, ''down''),
      (TELLSTICK_STOP c, ''stop'')]"

text \<open>The default of both lookups, \<^verbatim>\<open>'UNKNOWN METHOD {0}'.format(code)\<close>.\<close>

definition unknown_method :: "int \<Rightarrow> string" where
  "unknown_method code = ''UNKNOWN METHOD '' @ show_int code"

text \<open>\<^verbatim>\<open>METHODS.get(method, 'UNKNOWN METHOD {0}'.format(method))\<close>, the first line of
  \<^verbatim>\<open>device_event\<close>, and its twin in \<^verbatim>\<open>sensor_event\<close>.\<close>

definition method_name :: "tellstick_const \<Rightarrow> int \<Rightarrow> string" where
  "method_name c method = dict_get (METHODS c) method (unknown_method method)"

definition type_name :: "tellstick_const \<Rightarrow> int \<Rightarrow> string" where
  "type_name c data_type = dict_get (TYPES c) data_type (unknown_method data_type)"

text \<open>
  One entry of the list that \<^verbatim>\<open>create_topics\<close> returns: a dict that may hold a
  \<^verbatim>\<open>'config'\<close> and a \<^verbatim>\<open>'state'\<close> key, each with a \<^verbatim>\<open>'topic'\<close> and a \<^verbatim>\<open>'data'\<close>.
\<close>

record topic_entry =
  entry_config :: "(string \<times> pyval) option"
  entry_state :: "(string \<times> pyval) option"

text \<open>
  The objects \<^verbatim>\<open>s\<close>, \<^verbatim>\<open>d\<close> and \<^verbatim>\<open>raw\<close> of the controller package, as far as main.py
  calls them. Their code is not part of main.py, so each method is a parameter:
  \<open>create_topics_get x\<close> is \<^verbatim>\<open>create_topics(get(x))\<close>, and \<open>serialized x key\<close> is
  \<^verbatim>\<open>serialized[key]\<close> once \<^verbatim>\<open>get(x)\<close> has run.
\<close>

record telldus_obj =
  create_topic :: "pyval \<Rightarrow> string \<Rightarrow> string"
  create_topic_data :: "string \<Rightarrow> pyval \<Rightarrow> pyval"
  create_topics_get :: "pyval \<Rightarrow> topic_entry list"
  serialized :: "pyval \<Rightarrow> string \<Rightarrow> pyval"


section \<open>Effects\<close>

text \<open>
  What main.py does to the outside is recorded in a trace, in order: a call of the
  logging module (level, format string, arguments), a call of an MQTT client's
  \<^verbatim>\<open>publish\<close> (client, topic, payload, retain flag), and a command method of the device
  object \<^verbatim>\<open>d\<close>. The device id of a command is a string, as the router passes it.
\<close>

datatype level = DEBUG | INFO | ERROR | CRITICAL

datatype mqtt_client = mqtt_sensor | mqtt_device | mqtt_command | mqtt_subscription

datatype command =
    dim string int
  | turn_off string
  | turn_on_once string
  | turn_on string

text \<open>An inbound message: its topic, and the text \<^verbatim>\<open>msg.payload.decode()\<close> gives, \<open>None\<close>
  when the payload bytes are not valid UTF-8.\<close>

record mqtt_message =
  msg_topic :: string
  msg_payload :: "string option"

datatype logarg = Val pyval | Msg mqtt_message

datatype effect =
    Log level string "logarg list"
  | Publish mqtt_client string pyval bool
  | Ctl command

type_synonym trace = "effect list"

text \<open>A procedure extends the trace and either returns (\<open>None\<close>) or raises.\<close>

type_synonym proc = "trace \<Rightarrow> trace \<times> exn option"

text \<open>The acknowledgement code \<^verbatim>\<open>result[0]\<close> that the client's \<^verbatim>\<open>publish\<close> returns; it may
  depend on everything that happened so far, the publish call itself included.\<close>

type_synonym broker = "trace \<Rightarrow> int"

definition seq :: "proc \<Rightarrow> proc \<Rightarrow> proc" where
  "seq p q tr = (case p tr of (tr', None) \<Rightarrow> q tr' | (tr', Some e) \<Rightarrow> (tr', Some e))"

fun is_publish :: "effect \<Rightarrow> bool" where
  "is_publish (Publish client topic payload retain) = True"
| "is_publish e = False"

fun is_ctl :: "effect \<Rightarrow> bool" where
  "is_ctl (Ctl cmd) = True"
| "is_ctl e = False"


fun retained :: "effect \<Rightarrow> bool" where
  "retained (Publish client topic payload retain) = retain"
| "retained e = True"

fun command_device_id :: "command \<Rightarrow> string" where
  "command_device_id (dim device_id lvl) = device_id"
| "command_device_id (turn_off device_id) = device_id"
| "command_device_id (turn_on_once device_id) = device_id"
| "command_device_id (turn_on device_id) = device_id"


section \<open>The publisher\<close>

text \<open>\<^verbatim>\<open>publish_mqtt(client, topic, msg)\<close>. The lock around the body orders concurrent
  callers and has no part in a single call.\<close>

definition publish_mqtt :: "broker \<Rightarrow> mqtt_client \<Rightarrow> string \<Rightarrow> pyval \<Rightarrow> proc" where
  \<open>publish_mqtt b client topic msg tr =
     (let tr = tr @ [Publish client topic msg True];
          result0 = b tr
      in if result0 = 0
         then (tr @ [Log INFO ''Send "%s" to topic "%s"'' [Val msg, Val (PStr topic)]], None)
         else (tr @ [Log ERROR ''Failed to send message to topic "%s"'' [Val (PStr topic)]],
               None))\<close>

text \<open>\<^verbatim>\<open>initial_publish(client_mqtt, topics)\<close>: the loop over the entries.\<close>

fun initial_publish :: "broker \<Rightarrow> mqtt_client \<Rightarrow> topic_entry list \<Rightarrow> proc" where
  "initial_publish b client_mqtt [] tr = (tr, None)"
| "initial_publish b client_mqtt (entry # topics) tr =
     seq (seq (case entry_config entry of
                 None \<Rightarrow> (\<lambda>tr. (tr, None))
               | Some (t, data) \<Rightarrow> publish_mqtt b client_mqtt t data)
              (case entry_state entry of
                 None \<Rightarrow> (\<lambda>tr. (tr, None))
               | Some (t, data) \<Rightarrow> publish_mqtt b client_mqtt t data))
         (initial_publish b client_mqtt topics) tr"


section \<open>The inbound command router\<close>

text \<open>
  The callback \<^verbatim>\<open>on_message\<close> that \<^verbatim>\<open>subscribe_device\<close> installs. The arguments of the first
  log call are evaluated before it, so a payload that does not decode raises before
  anything is logged; the three topic segments are read next, then the payload is
  parsed. The status a command method of \<^verbatim>\<open>d\<close> returns is stored in \<^verbatim>\<open>cmd_status\<close> and not
  read again; the one test of \<^verbatim>\<open>cmd_status\<close> is the last \<^verbatim>\<open>elif\<close> of the chain over
  \<^verbatim>\<open>module\<close>, where it still has its initial value.
\<close>

definition on_message :: "tellstick_const \<Rightarrow> mqtt_message \<Rightarrow> proc" where
  \<open>on_message c msg tr =
     (case msg_payload msg of
        None \<Rightarrow> (tr, Some UnicodeDecodeError)
      | Some text \<Rightarrow>
          let tr = tr @ [Log INFO ''Received "%s" from "%s" topic''
                           [Val (PStr text), Val (PStr (msg_topic msg))]]
          in case index (str_split CHR ''/'' (msg_topic msg)) 1 of
               Inl e \<Rightarrow> (tr, Some e)
             | Inr device_id \<Rightarrow>
          case index (str_split CHR ''/'' (msg_topic msg)) 2 of
               Inl e \<Rightarrow> (tr, Some e)
             | Inr module \<Rightarrow>
          case index (str_split CHR ''/'' (msg_topic msg)) 3 of
               Inl e \<Rightarrow> (tr, Some e)
             | Inr action \<Rightarrow>
          let cmd_status = False
          in case py_int text of
               None \<Rightarrow> (tr, Some ValueError)
             | Some payload \<Rightarrow>
          if module = ''light'' then
            if action = ''dim'' then
              (tr @ [Log INFO ''[DEVICE] Sending command DIM "%s" to device id "%s"''
                       [Val (PInt payload), Val (PStr device_id)],
                     Ctl (dim device_id payload)], None)
            else if action = ''set'' then
              if payload = 0 then
                (tr @ [Log INFO ''[DEVICE] Sending light OFF "%s" to device id "%s"''
                         [Val (PInt payload), Val (PStr device_id)],
                       Ctl (turn_off device_id)], None)
              else
                (tr @ [Log INFO ''[DEVICE] Sending light ON ONCE "%s" to device id "%s"''
                         [Val (PInt payload), Val (PStr device_id)],
                       Ctl (turn_on_once device_id)], None)
            else
              (tr @ [Log INFO ''[DEVICE] Unknown light action "%s"'' [Val (PStr action)]],
               None)
          else if module = ''brightness'' then
            (tr @ [Log INFO
                     ''[DEVICE] Sending command DIM (brightness) "%s" to device id "%s"''
                     [Val (PInt payload), Val (PStr device_id)],
                   Ctl (dim device_id payload)], None)
          else if module = ''switch'' then
            if payload = TELLSTICK_TURNON c then
              (tr @ [Log INFO ''[DEVICE] Sending command ON to device id "%s"''
                       [Val (PStr device_id)],
                     Ctl (turn_on device_id)], None)
            else if payload = TELLSTICK_TURNOFF c then
              (tr @ [Log INFO ''[DEVICE] Sending command OFF to device id "%s''
                       [Val (PStr device_id)],
                     Ctl (turn_off device_id)], None)
            else (tr, None)
          else if \<not> cmd_status then
            (tr @ [Log ERROR
                     ''[DEVICE] Command "%s" not supported, please open a github issue with this message.''
                     [Msg msg]], None)
          else (tr, None))\<close>


section \<open>The event handlers\<close>

text \<open>\<^verbatim>\<open>raw_event(data, controller_id, cid)\<close>; the last two arguments are unused.\<close>

definition raw_event :: "telldus_obj \<Rightarrow> broker \<Rightarrow> string \<Rightarrow> proc" where
  "raw_event raw b data tr =
     (if \<not> str_contains ''command'' data then (tr, None)
      else
        let command_topics = create_topics_get raw (PStr data);
            topic = create_topic raw (serialized raw (PStr data) ''id'') ''binary_sensor'';
            topic_data = create_topic_data raw ''binary_sensor''
                           (serialized raw (PStr data) ''method'')
        in seq (initial_publish b mqtt_command command_topics)
               (publish_mqtt b mqtt_command topic topic_data) tr)"

text \<open>
  \<^verbatim>\<open>device_event(id_, method, data, cid)\<close>. In the branch of the hardcoded dimmer ids
  the chain over \<^verbatim>\<open>method\<close> has no \<^verbatim>\<open>else\<close>: with any other method neither \<^verbatim>\<open>topic\<close> nor
  \<^verbatim>\<open>topic_data\<close> is assigned, and reading them in the last line raises
  UnboundLocalError.
\<close>

definition device_event ::
  "tellstick_const \<Rightarrow> telldus_obj \<Rightarrow> broker \<Rightarrow> int \<Rightarrow> int \<Rightarrow> pyval \<Rightarrow> proc" where
  "device_event c d b id' method data tr =
     (let method_string = method_name c method;
          string = ''[DEVICE] '' @ show_int id' @ '' -> '' @ method_string
                     @ '' ('' @ show_int method @ '')'';
          string = (if method = TELLSTICK_DIM c
                    then string @ '' ['' @ py_str data @ '']'' else string)
      in if id' = 8 \<or> id' = 9 \<or> id' = 10 \<or> id' = 11 \<or> id' = 12 then
           let tr = tr @ [Log DEBUG ''[DEVICE EVENT DIMMER LIGHT] %s'' [Val (PStr string)]]
           in if method = TELLSTICK_TURNOFF c then
                publish_mqtt b mqtt_device (create_topic d (PInt id') ''light'')
                  (create_topic_data d ''light'' (PInt 0)) tr
              else if method = TELLSTICK_TURNON c then
                publish_mqtt b mqtt_device (create_topic d (PInt id') ''light'')
                  (create_topic_data d ''light'' (PInt 255)) tr
              else if method = TELLSTICK_DIM c then
                publish_mqtt b mqtt_device (create_topic d (PInt id') ''brightness'')
                  (create_topic_data d ''brightness'' data) tr
              else (tr, Some UnboundLocalError)
         else if method = TELLSTICK_DIM c then
           publish_mqtt b mqtt_device (create_topic d (PInt id') ''brightness'')
             (create_topic_data d ''brightness'' data)
             (tr @ [Log DEBUG ''[DEVICE EVENT LIGHT] %s'' [Val (PStr string)]])
         else
           publish_mqtt b mqtt_device (create_topic d (PInt id') ''switch'')
             (create_topic_data d ''switch'' (PInt method))
             (tr @ [Log DEBUG ''[DEVICE EVENT SWITCH] %s'' [Val (PStr string)]]))"

text \<open>\<^verbatim>\<open>sensor_event(protocol, model, id_, data_type, value, timestamp, cid)\<close>; only
  \<^verbatim>\<open>model\<close>, \<^verbatim>\<open>id_\<close>, \<^verbatim>\<open>data_type\<close> and \<^verbatim>\<open>value\<close> are used. The formatted line is itself
  the format string of the log call.\<close>

definition sensor_event ::
  "tellstick_const \<Rightarrow> telldus_obj \<Rightarrow> broker \<Rightarrow> string \<Rightarrow> int \<Rightarrow> int \<Rightarrow> pyval \<Rightarrow> proc" where
  "sensor_event c s b model id' data_type val tr =
     (let type_string = type_name c data_type;
          string = ''[SENSOR] '' @ show_int id' @ '' '' @ model
                     @ '' ('' @ type_string @ '') = '' @ py_str val;
          tr = tr @ [Log DEBUG string []];
          sensor_topics = create_topics_get s (PInt id');
          topic = create_topic s (PInt id') type_string;
          data = create_topic_data s type_string val
      in seq (initial_publish b mqtt_sensor sensor_topics)
             (publish_mqtt b mqtt_sensor topic data) tr)"

text \<open>The two publish sweeps at program start, over the topics of all known sensors
  and of all known devices.\<close>

definition startup_publish :: "broker \<Rightarrow> topic_entry list \<Rightarrow> topic_entry list \<Rightarrow> proc" where
  "startup_publish b sensors_topics devices_topics =
     seq (initial_publish b mqtt_sensor sensors_topics)
         (initial_publish b mqtt_device devices_topics)"


section \<open>Reading a trace\<close>

fun publishes :: "trace \<Rightarrow> (mqtt_client \<times> string \<times> pyval \<times> bool) list" where
  "publishes [] = []"
| "publishes (Publish client topic payload retain # tr) =
     (client, topic, payload, retain) # publishes tr"
| "publishes (e # tr) = publishes tr"

fun commands :: "trace \<Rightarrow> command list" where
  "commands [] = []"
| "commands (Ctl cmd # tr) = cmd # commands tr"
| "commands (e # tr) = commands tr"


definition unretained :: "trace \<Rightarrow> effect list" where
  "unretained tr = filter (\<lambda>e. \<not> retained e) tr"

text \<open>
  Modelled from the spec: the topic builder of the controller package
  (\<^verbatim>\<open>create_topic\<close> in \<^verbatim>\<open>src.telldus\<close>) is not in main.py. The spec gives the shape of an
  outbound state topic, \<^verbatim>\<open><prefix>/<entity_id>/<capability>/state\<close>, as pure string
  composition of \<^verbatim>\<open>/\<close>-joined segments.
\<close>

definition build_topic :: "string \<Rightarrow> pyval \<Rightarrow> string \<Rightarrow> string \<Rightarrow> string" where
  "build_topic prefix entity_id capability suffix =
     prefix @ ''/'' @ py_str entity_id @ ''/'' @ capability @ ''/'' @ suffix"

text \<open>
  Modelled from the spec: a controller object over that topic builder, with the state
  payload the serialized value itself, no entity to announce and nothing serialized.
\<close>

definition spec_obj :: "string \<Rightarrow> telldus_obj" where
  "spec_obj prefix =
     \<lparr>create_topic = (\<lambda>entity_id capability. build_topic prefix entity_id capability ''state''),
      create_topic_data = (\<lambda>capability v. v),
      create_topics_get = (\<lambda>x. []),
      serialized = (\<lambda>x key. PStr [])\<rparr>"

text \<open>A broker that acknowledges every publish.\<close>

definition ack_all :: broker where
  "ack_all tr = 0"


section \<open>Basic facts\<close>

lemma publishes_append: "publishes (xs @ ys) = publishes xs @ publishes ys"
  by (induction xs rule: publishes.induct) simp_all

lemma commands_append: "commands (xs @ ys) = commands xs @ commands ys"
  by (induction xs rule: commands.induct) simp_all

lemma unretained_append: "unretained (xs @ ys) = unretained xs @ unretained ys"
  by (simp add: unretained_def)

lemma publish_mqtt_eq:
  \<open>publish_mqtt b client topic msg tr =
     (tr @ [Publish client topic msg True,
            if b (tr @ [Publish client topic msg True]) = 0
            then Log INFO ''Send "%s" to topic "%s"'' [Val msg, Val (PStr topic)]
            else Log ERROR ''Failed to send message to topic "%s"'' [Val (PStr topic)]],
      None)\<close>
  by (simp add: publish_mqtt_def Let_def)

lemma publish_mqtt_returns: "snd (publish_mqtt b client topic msg tr) = None"
  by (simp add: publish_mqtt_eq)

lemma publish_mqtt_publishes:
  "publishes (fst (publish_mqtt b client topic msg tr)) =
     publishes tr @ [(client, topic, msg, True)]"
  by (simp add: publish_mqtt_eq publishes_append)

lemma publish_mqtt_unretained:
  "unretained (fst (publish_mqtt b client topic msg tr)) = unretained tr"
  by (simp add: publish_mqtt_eq unretained_def)

lemma seq_returns: "snd (p tr) = None \<Longrightarrow> seq p q tr = q (fst (p tr))"
  by (cases "p tr") (simp add: seq_def)

lemma entry_publish_returns:
  "snd ((case x of None \<Rightarrow> (\<lambda>tr. (tr, None))
         | Some (t, data) \<Rightarrow> publish_mqtt b client t data) tr) = None"
  by (cases x) (auto simp: publish_mqtt_returns)

lemma entry_publish_unretained:
  "unretained (fst ((case x of None \<Rightarrow> (\<lambda>tr. (tr, None))
         | Some (t, data) \<Rightarrow> publish_mqtt b client t data) tr)) = unretained tr"
  by (cases x) (auto simp: publish_mqtt_unretained)

lemma initial_publish_returns: "snd (initial_publish b client topics tr) = None"
  by (induction topics arbitrary: tr)
     (simp_all add: seq_returns entry_publish_returns)

lemma initial_publish_unretained:
  "unretained (fst (initial_publish b client topics tr)) = unretained tr"
  by (induction topics arbitrary: tr)
     (simp_all add: seq_returns entry_publish_returns entry_publish_unretained)

lemma raw_event_unretained:
  "unretained (fst (raw_event raw b data tr)) = unretained tr"
  by (simp add: raw_event_def Let_def seq_returns initial_publish_returns
        initial_publish_unretained publish_mqtt_unretained)

lemma device_event_unretained:
  "unretained (fst (device_event c d b id' method data tr)) = unretained tr"
  by (simp add: device_event_def Let_def publish_mqtt_unretained unretained_append)
     (simp add: unretained_def)

lemma sensor_event_unretained:
  "unretained (fst (sensor_event c s b model id' data_type val tr)) = unretained tr"
  by (simp add: sensor_event_def Let_def seq_returns initial_publish_returns
        initial_publish_unretained publish_mqtt_unretained unretained_append)
     (simp add: unretained_def)

lemma startup_publish_unretained:
  "unretained (fst (startup_publish b sensors_topics devices_topics tr)) = unretained tr"
  by (simp add: startup_publish_def seq_returns initial_publish_returns
        initial_publish_unretained)

lemma on_message_publishes: "publishes (fst (on_message c msg tr)) = publishes tr"
  by (simp add: on_message_def Let_def publishes_append split: option.splits sum.splits)

lemma unknown_method_not_capability:
  "unknown_method code \<noteq> ''light'' \<and> unknown_method code \<noteq> ''brightness''
   \<and> unknown_method code \<noteq> ''switch''"
  by (simp add: unknown_method_def)

lemmas py_int_eval =
  py_int_def py_isspace_def is_digit_def digit_val_def int_max_str_digits_def


section \<open>The inbound command router: malformed messages\<close>





section \<open>Unknown codes and topic construction\<close>

text \<open>
  Claim C2, as amended. In \<^verbatim>\<open>device_event\<close> every published topic is built by
  \<^verbatim>\<open>create_topic\<close> from the device id and one of the fixed capabilities \<^verbatim>\<open>light\<close>,
  \<^verbatim>\<open>brightness\<close>, \<^verbatim>\<open>switch\<close>, none of which is the sentinel of the event's method, so
  there the sentinel reaches the log line only. In \<^verbatim>\<open>sensor_event\<close> topic construction
  does not fail closed: for every \<^verbatim>\<open>data_type\<close> that is no key of \<^verbatim>\<open>TYPES\<close> the handler
  returns, and its last publish, on the sensor client and retained, has the topic
  \<^verbatim>\<open>create_topic(id_, sentinel)\<close> and the payload \<^verbatim>\<open>create_topic_data(sentinel, value)\<close>
  with the sentinel \<^verbatim>\<open>'UNKNOWN METHOD {data_type}'\<close> as the capability.
\<close>

theorem unknown_code_topics:
  "(\<exists>ext. publishes (fst (device_event c d b id' method data tr)) = publishes tr @ ext
        \<and> (\<forall>p \<in> set ext. \<exists>capability \<in> {''light'', ''brightness'', ''switch''}.
               fst (snd p) = create_topic d (PInt id') capability
               \<and> capability \<noteq> unknown_method method))
   \<and> (data_type \<notin> set (map fst (TYPES c)) \<longrightarrow>
        snd (sensor_event c s b model id' data_type val tr) = None
        \<and> (\<exists>pre. publishes (fst (sensor_event c s b model id' data_type val tr)) =
              pre @ [(mqtt_sensor,
                      create_topic s (PInt id') (unknown_method data_type),
                      create_topic_data s (unknown_method data_type) val, True)]))"
proof (intro conjI impI)
  show "\<exists>ext. publishes (fst (device_event c d b id' method data tr)) = publishes tr @ ext
        \<and> (\<forall>p \<in> set ext. \<exists>capability \<in> {''light'', ''brightness'', ''switch''}.
               fst (snd p) = create_topic d (PInt id') capability
               \<and> capability \<noteq> unknown_method method)"
    using unknown_method_not_capability [of "method"]
    by (auto simp: device_event_def Let_def publish_mqtt_publishes publishes_append)
next
  assume "data_type \<notin> set (map fst (TYPES c))"
  then have name: "type_name c data_type = unknown_method data_type"
    by (simp add: type_name_def dict_get_def TYPES_def)
  show "snd (sensor_event c s b model id' data_type val tr) = None"
    by (simp add: sensor_event_def Let_def seq_returns initial_publish_returns
          publish_mqtt_returns)
  show "\<exists>pre. publishes (fst (sensor_event c s b model id' data_type val tr)) =
              pre @ [(mqtt_sensor,
                      create_topic s (PInt id') (unknown_method data_type),
                      create_topic_data s (unknown_method data_type) val, True)]"
    by (simp add: sensor_event_def Let_def seq_returns initial_publish_returns
          publish_mqtt_publishes name)
qed

text \<open>The theorem at the sensor type code 999, which the controller does not define.\<close>

theorem unknown_code_topics_witness:
  "999 \<notin> set (map fst (TYPES tellcore_const))
   \<and> snd (sensor_event tellcore_const (spec_obj ''ha'') ack_all ''oregon'' 3 999
            (PStr ''21.5'') []) = None
   \<and> (\<exists>pre. publishes (fst (sensor_event tellcore_const (spec_obj ''ha'') ack_all ''oregon''
                               3 999 (PStr ''21.5'') [])) =
          pre @ [(mqtt_sensor,
                  create_topic (spec_obj ''ha'') (PInt 3) (unknown_method 999),
                  create_topic_data (spec_obj ''ha'') (unknown_method 999) (PStr ''21.5''),
                  True)])"
proof -
  have unknown: "999 \<notin> set (map fst (TYPES tellcore_const))"
    by (simp add: TYPES_def tellcore_const_def)
  show ?thesis
    using unknown
      unknown_code_topics [where c = tellcore_const and s = "spec_obj ''ha''"
        and b = ack_all and model = "''oregon''" and id' = 3 and data_type = 999
        and val = "PStr ''21.5''" and tr = "[]"]
    by blast
qed

text \<open>The claim as stated fails: with the topic shape of the spec, the state topic
  published for the unknown sensor type 999 has the sentinel as its third segment.\<close>

theorem sensor_event_sentinel_topic_counterexample:
  "publishes (fst (sensor_event tellcore_const (spec_obj ''ha'') ack_all ''oregon'' 3 999
                     (PStr ''21.5'') [])) =
     [(mqtt_sensor, ''ha/3/UNKNOWN METHOD 999/state'', PStr ''21.5'', True)]
   \<and> str_split CHR ''/'' ''ha/3/UNKNOWN METHOD 999/state'' =
       [''ha'', ''3'', unknown_method 999, ''state'']
   \<and> 999 \<notin> set (map fst (TYPES tellcore_const))"
  by code_simp


section \<open>Device events\<close>

text \<open>
  Claim C3, at the input where the code departs from it: the device id 8 of the
  hardcoded dimmer set with the method \<^verbatim>\<open>TELLSTICK_BELL\<close> (code 4), which is none of
  turn-on, turn-off and dim. The handler raises UnboundLocalError where it reads
  \<^verbatim>\<open>topic\<close>, and nothing is published; the claim asks for one publish on the switch topic
  of device 8 with payload 4.
\<close>

theorem device_event_dimmer_other_method:
  "snd (device_event tellcore_const d b 8 4 data tr) = Some UnboundLocalError
   \<and> publishes (fst (device_event tellcore_const d b 8 4 data tr)) = publishes tr
   \<and> TELLSTICK_BELL tellcore_const = 4"
  by (simp add: device_event_def Let_def tellcore_const_def publishes_append)

text \<open>
  Claim C5. When the codes of turn-on, turn-off and dim differ from each other: for a
  device id in \<open>{8, 9, 10, 11, 12}\<close> the method turn-off publishes the light topic of
  that id with the payload made from 0 and the method turn-on publishes the light topic
  with the payload made from 255; for every device id, in that set or not, the method
  dim publishes the brightness topic with the payload made from the event's data. Each
  is the one publish of the call, on the device client.
\<close>

theorem device_event_dimmer_policy:
  assumes "TELLSTICK_TURNON c \<noteq> TELLSTICK_TURNOFF c"
    and "TELLSTICK_DIM c \<noteq> TELLSTICK_TURNOFF c"
    and "TELLSTICK_DIM c \<noteq> TELLSTICK_TURNON c"
  shows "(id' \<in> {8, 9, 10, 11, 12} \<longrightarrow>
            publishes (fst (device_event c d b id' (TELLSTICK_TURNOFF c) data tr)) =
              publishes tr @ [(mqtt_device, create_topic d (PInt id') ''light'',
                               create_topic_data d ''light'' (PInt 0), True)]
          \<and> publishes (fst (device_event c d b id' (TELLSTICK_TURNON c) data tr)) =
              publishes tr @ [(mqtt_device, create_topic d (PInt id') ''light'',
                               create_topic_data d ''light'' (PInt 255), True)])
       \<and> publishes (fst (device_event c d b id' (TELLSTICK_DIM c) data tr)) =
              publishes tr @ [(mqtt_device, create_topic d (PInt id') ''brightness'',
                               create_topic_data d ''brightness'' data, True)]"
  using assms
  by (auto simp: device_event_def Let_def publish_mqtt_publishes publishes_append)

text \<open>The theorem at the dimmer 8 and, for dim, at the device 1 outside the set.\<close>

theorem device_event_dimmer_policy_witness:
  "TELLSTICK_TURNON tellcore_const \<noteq> TELLSTICK_TURNOFF tellcore_const
   \<and> TELLSTICK_DIM tellcore_const \<noteq> TELLSTICK_TURNOFF tellcore_const
   \<and> TELLSTICK_DIM tellcore_const \<noteq> TELLSTICK_TURNON tellcore_const
   \<and> (8::int) \<in> {8, 9, 10, 11, 12}
   \<and> publishes (fst (device_event tellcore_const (spec_obj ''ha'') ack_all 8 2 (PStr []) []))
       = [(mqtt_device, ''ha/8/light/state'', PInt 0, True)]
   \<and> publishes (fst (device_event tellcore_const (spec_obj ''ha'') ack_all 8 1 (PStr []) []))
       = [(mqtt_device, ''ha/8/light/state'', PInt 255, True)]
   \<and> publishes (fst (device_event tellcore_const (spec_obj ''ha'') ack_all 8 16 (PInt 40) []))
       = [(mqtt_device, ''ha/8/brightness/state'', PInt 40, True)]
   \<and> publishes (fst (device_event tellcore_const (spec_obj ''ha'') ack_all 1 16 (PInt 128) []))
       = [(mqtt_device, ''ha/1/brightness/state'', PInt 128, True)]"
proof -
  have codes: "TELLSTICK_TURNON tellcore_const = 1" "TELLSTICK_TURNOFF tellcore_const = 2"
    "TELLSTICK_DIM tellcore_const = 16"
    by (simp_all add: tellcore_const_def)
  have topics: "build_topic ''ha'' (PInt 8) ''light'' ''state'' = ''ha/8/light/state''"
    "build_topic ''ha'' (PInt 8) ''brightness'' ''state'' = ''ha/8/brightness/state''"
    "build_topic ''ha'' (PInt 1) ''brightness'' ''state'' = ''ha/1/brightness/state''"
    by code_simp+
  show ?thesis
    using device_event_dimmer_policy [where c = tellcore_const and d = "spec_obj ''ha''"
        and b = ack_all and id' = 8 and data = "PStr []" and tr = "[]"]
      device_event_dimmer_policy [where c = tellcore_const and d = "spec_obj ''ha''"
        and b = ack_all and id' = 8 and data = "PInt 40" and tr = "[]"]
      device_event_dimmer_policy [where c = tellcore_const and d = "spec_obj ''ha''"
        and b = ack_all and id' = 1 and data = "PInt 128" and tr = "[]"]
    by (simp add: codes topics spec_obj_def)
qed


section \<open>The inbound command router: dispatch\<close>



text \<open>
  Claim C6, at the input where the code departs from it: a message on
  \<^verbatim>\<open>ha/5/switch/set\<close> with the payload 7, which is neither the turn-on code 1 nor the
  turn-off code 2. The router logs the received line and returns: no controller command,
  and no error is logged, where the claim asks for the unsupported-command error. The
  test of \<^verbatim>\<open>cmd_status\<close> that logs this error is an \<^verbatim>\<open>elif\<close> of the chain over the
  capability, so it is reached only when the capability is none of the three.
\<close>

theorem on_message_switch_other_payload:
  \<open>on_message tellcore_const \<lparr>msg_topic = ''ha/5/switch/set'', msg_payload = Some ''7''\<rparr> [] =
     ([Log INFO ''Received "%s" from "%s" topic''
         [Val (PStr ''7''), Val (PStr ''ha/5/switch/set'')]], None)\<close>
  by (simp add: on_message_def Let_def tellcore_const_def index_def py_int_eval)

text \<open>
  Claim C10. Every controller command that the router invokes carries, as its device
  id, the second segment of the topic split as a string, unchanged: the command's
  device id is the value of \<^verbatim>\<open>msg.topic.split('/')[1]\<close>.
\<close>

theorem on_message_device_id_verbatim:
  "\<exists>ext. commands (fst (on_message c msg tr)) = commands tr @ ext
       \<and> (\<forall>cmd \<in> set ext.
             index (str_split CHR ''/'' (msg_topic msg)) 1 = Inr (command_device_id cmd))"
  by (auto simp: on_message_def Let_def commands_append split: option.splits sum.splits)

text \<open>The theorem at a device id that is no number, and at one with leading zeros.\<close>

theorem on_message_device_id_verbatim_witness:
  "index (str_split CHR ''/'' ''ha/abc/light/set'') 1 = Inr ''abc''
   \<and> commands (fst (on_message tellcore_const
                 \<lparr>msg_topic = ''ha/abc/light/set'', msg_payload = Some ''0''\<rparr> []))
       = [turn_off ''abc'']
   \<and> commands (fst (on_message tellcore_const
                 \<lparr>msg_topic = ''ha/007/switch/set'', msg_payload = Some ''1''\<rparr> []))
       = [turn_on ''007'']"
proof -
  have evals:
    "commands (fst (on_message tellcore_const
                 \<lparr>msg_topic = ''ha/abc/light/set'', msg_payload = Some ''0''\<rparr> []))
       = [turn_off ''abc'']"
    "commands (fst (on_message tellcore_const
                 \<lparr>msg_topic = ''ha/007/switch/set'', msg_payload = Some ''1''\<rparr> []))
       = [turn_on ''007'']"
    by (simp_all add: on_message_def Let_def tellcore_const_def index_def py_int_eval)
  from on_message_device_id_verbatim [where c = tellcore_const and tr = "[]"
        and msg = "\<lparr>msg_topic = ''ha/abc/light/set'', msg_payload = Some ''0''\<rparr>"]
  obtain ext where
    ext: "commands (fst (on_message tellcore_const
            \<lparr>msg_topic = ''ha/abc/light/set'', msg_payload = Some ''0''\<rparr> [])) = ext"
    and ids: "\<forall>cmd \<in> set ext.
            index (str_split CHR ''/'' ''ha/abc/light/set'') 1 = Inr (command_device_id cmd)"
    by auto
  from ext evals have "ext = [turn_off ''abc'']" by simp
  with ids have "index (str_split CHR ''/'' ''ha/abc/light/set'') 1 = Inr ''abc''"
    by simp
  with evals show ?thesis by simp
qed


section \<open>The publisher\<close>

text \<open>
  Claim C7. Every publish carries the retain flag. A call of \<^verbatim>\<open>publish_mqtt\<close> adds one
  publish to the trace, with \<^verbatim>\<open>retain=True\<close>; the initial sweep, the three event
  handlers and the two sweeps at program start publish through \<^verbatim>\<open>publish_mqtt\<close> only and
  add no publish without the flag; the inbound router publishes nothing.
\<close>

theorem every_publish_retained:
  "publishes (fst (publish_mqtt b client topic msg tr)) =
     publishes tr @ [(client, topic, msg, True)]
   \<and> unretained (fst (publish_mqtt b client topic msg tr)) = unretained tr
   \<and> unretained (fst (initial_publish b client topics tr)) = unretained tr
   \<and> unretained (fst (raw_event raw b raw_data tr)) = unretained tr
   \<and> unretained (fst (device_event c d b id' method data tr)) = unretained tr
   \<and> unretained (fst (sensor_event c s b model id' data_type val tr)) = unretained tr
   \<and> unretained (fst (startup_publish b sensors_topics devices_topics tr)) = unretained tr
   \<and> publishes (fst (on_message c inbound tr)) = publishes tr"
  by (simp add: publish_mqtt_publishes publish_mqtt_unretained initial_publish_unretained
        raw_event_unretained device_event_unretained sensor_event_unretained
        startup_publish_unretained on_message_publishes)



section \<open>The mapping tables\<close>

text \<open>
  Claim C9. When the ten device event codes are ten different numbers, the method-name
  lookup gives each of them its name: turn on, turn off, bell, toggle, dim, learn,
  execute, up, down, stop. For every other integer it gives the text
  \<^verbatim>\<open>UNKNOWN METHOD\<close>, a space, and the code in decimal.
\<close>

theorem method_name_lookup:
  assumes "distinct (map fst (METHODS c))"
  shows "method_name c (TELLSTICK_TURNON c) = ''turn on''
       \<and> method_name c (TELLSTICK_TURNOFF c) = ''turn off''
       \<and> method_name c (TELLSTICK_BELL c) = ''bell''
       \<and> method_name c (TELLSTICK_TOGGLE c) = ''toggle''
       \<and> method_name c (TELLSTICK_DIM c) = ''dim''
       \<and> method_name c (TELLSTICK_LEARN c) = ''learn''
       \<and> method_name c (TELLSTICK_EXECUTE c) = ''execute''
       \<and> method_name c (TELLSTICK_UP c) = ''up''
       \<and> method_name c (TELLSTICK_DOWN c) = ''down''
       \<and> method_name c (TELLSTICK_STOP c) = ''stop''
       \<and> (\<forall>code. code \<notin> set (map fst (METHODS c)) \<longrightarrow>
             method_name c code = ''UNKNOWN METHOD '' @ show_int code)"
  using assms
  by (simp add: method_name_def dict_get_def METHODS_def unknown_method_def)

text \<open>The theorem at the controller's codes, with 3 and -7 as codes it does not define.\<close>

theorem method_name_lookup_witness:
  "distinct (map fst (METHODS tellcore_const))
   \<and> map (method_name tellcore_const) [1, 2, 4, 8, 16, 32, 64, 128, 256, 512] =
       [''turn on'', ''turn off'', ''bell'', ''toggle'', ''dim'', ''learn'', ''execute'',
        ''up'', ''down'', ''stop'']
   \<and> 3 \<notin> set (map fst (METHODS tellcore_const))
   \<and> method_name tellcore_const 3 = ''UNKNOWN METHOD 3''
   \<and> method_name tellcore_const (- 7) = ''UNKNOWN METHOD -7''"
proof -
  have dist: "distinct (map fst (METHODS tellcore_const))"
    by (simp add: METHODS_def tellcore_const_def)
  have shown: "show_int 3 = ''3''" "show_int (- 7) = ''-7''"
    by code_simp+
  show ?thesis
    using dist method_name_lookup [OF dist]
    by (simp add: METHODS_def tellcore_const_def shown)
qed

end
